theory Spec2Isabelle
  imports Main "HOL-Library.Sublist"
begin

section \<open>Python strings\<close>

text \<open>
  A Python \<open>str\<close> is a sequence of Unicode code points, and \<open>len\<close>, slicing,
  \<open>in\<close>, \<open>strip\<close> and \<open>split\<close> work on code points. It is modelled as a list of
  natural numbers, one per code point. \<open>lit\<close> gives the code points of an ASCII
  literal of the source; the literals' other characters (the bullet U+2022 and the
  sign U+00AE) are written as numbers.
\<close>

type_synonym codepoint = nat

type_synonym str = "codepoint list"

definition lit :: "string \<Rightarrow> str" where
  "lit s = map of_char s"

text \<open>
  The whitespace of \<open>str.strip()\<close>, \<open>str.split()\<close> and \<open>str.isspace()\<close>: tab to
  carriage return, the four separators U+001C to U+001F and the space in ASCII; beyond
  ASCII, the code points of Unicode's White_Space property.
\<close>

definition is_space :: "codepoint \<Rightarrow> bool" where
  "is_space c =
     (c \<in> set [0x09, 0x0A, 0x0B, 0x0C, 0x0D, 0x1C, 0x1D, 0x1E, 0x1F, 0x20,
                0x85, 0xA0, 0x1680, 0x2028, 0x2029, 0x202F, 0x205F, 0x3000]
      \<or> (0x2000 \<le> c \<and> c \<le> 0x200A))"

text \<open>\<open>s.strip()\<close>\<close>

definition strip :: "str \<Rightarrow> str" where
  "strip s = rev (dropWhile is_space (rev (dropWhile is_space s)))"

text \<open>
  \<open>s.lower()\<close> replaces each code point by its lower-case form: an ASCII letter
  \<open>A\<close>..\<open>Z\<close> by \<open>a\<close>..\<open>z\<close>, any other ASCII code point by itself, and a
  code point beyond ASCII by what Unicode's full lower-case mapping gives, one to three
  code points, which for U+03A3 depends on its place in the string. That mapping is a
  table of the Python runtime, not of this repository: it is the parameter \<open>tbl\<close>,
  read as \<open>tbl s i\<close> for the code point at index \<open>i\<close> of \<open>s\<close>.
\<close>

type_synonym lower_table = "str \<Rightarrow> nat \<Rightarrow> str"

definition ascii_lower :: "codepoint \<Rightarrow> codepoint" where
  "ascii_lower c = (if 0x41 \<le> c \<and> c \<le> 0x5A then c + 0x20 else c)"

fun lower_from :: "lower_table \<Rightarrow> str \<Rightarrow> nat \<Rightarrow> str \<Rightarrow> str" where
  "lower_from tbl s i [] = []"
| "lower_from tbl s i (c # cs) =
     (if c < 0x80 then [ascii_lower c] else tbl s i) @ lower_from tbl s (Suc i) cs"

definition lower :: "lower_table \<Rightarrow> str \<Rightarrow> str" where
  "lower tbl s = lower_from tbl s 0 s"

text \<open>
  \<open>s.split()\<close> with no separator: the maximal runs of non-whitespace code points, in
  order. \<open>split_from cur s\<close> scans \<open>s\<close> with the token read so far in \<open>cur\<close>.
\<close>

fun split_from :: "str \<Rightarrow> str \<Rightarrow> str list" where
  "split_from cur [] = (if cur = [] then [] else [cur])"
| "split_from cur (c # cs) =
     (if is_space c then (if cur = [] then split_from [] cs else cur # split_from [] cs)
      else split_from (cur @ [c]) cs)"

definition split :: "str \<Rightarrow> str list" where
  "split s = split_from [] s"

text \<open>\<open>sub in s\<close> on strings: \<open>sub\<close> occurs in \<open>s\<close> as a contiguous substring.\<close>

fun str_in :: "str \<Rightarrow> str \<Rightarrow> bool" where
  "str_in sub [] = (sub = [])"
| "str_in sub (c # cs) = (prefix sub (c # cs) \<or> str_in sub cs)"

text \<open>\<open>sep.join(xs)\<close>\<close>

fun join :: "str \<Rightarrow> str list \<Rightarrow> str" where
  "join sep [] = []"
| "join sep [x] = x"
| "join sep (x # y # ys) = x @ sep @ join sep (y # ys)"

text \<open>\<open>str(n)\<close> for a non-negative integer, as an f-string formats it.\<close>

fun str_nat :: "nat \<Rightarrow> str" where
  "str_nat n =
     (if n < 10 then [0x30 + n]
      else str_nat (n div 10) @ [0x30 + n mod 10])"

section \<open>The inference client\<close>

text \<open>
  The exceptions the body of \<open>query_ollama\<close> can raise: \<open>requests.exceptions.Timeout\<close>,
  which has a handler of its own, and the other subclasses of \<open>Exception\<close>, which the
  last handler catches (a refused connection, a body that is not JSON, a JSON value with
  no \<open>get\<close> or no \<open>strip\<close>).
\<close>

datatype py_exn = Timeout | ConnectionError | JSONDecodeError | AttributeError

datatype json =
    JNull
  | JBool bool
  | JNumber int
  | JString str
  | JArray "json list"
  | JObject "(str \<times> json) list"

text \<open>
  A \<open>JObject\<close> lists the items of the parsed dict, whose keys are distinct.

  What \<open>requests.post\<close> returns: the status code and the body as \<open>response.json()\<close>
  parses it (\<open>None\<close> when the body is not JSON, where \<open>json()\<close> raises).
\<close>

record http_response =
  status_code :: int
  body :: "json option"

definition response_json :: "http_response \<Rightarrow> py_exn + json" where
  "response_json r = (case body r of None \<Rightarrow> Inl JSONDecodeError | Some j \<Rightarrow> Inr j)"

text \<open>\<open>j.get(key, default)\<close>: only a dict has the method.\<close>

fun json_get :: "json \<Rightarrow> str \<Rightarrow> json \<Rightarrow> py_exn + json" where
  "json_get (JObject kvs) k d = Inr (case map_of kvs k of Some v \<Rightarrow> v | None \<Rightarrow> d)"
| "json_get _ k d = Inl AttributeError"

text \<open>\<open>v.strip()\<close>: only a string has the method.\<close>

fun json_strip :: "json \<Rightarrow> py_exn + str" where
  "json_strip (JString s) = Inr (strip s)"
| "json_strip _ = Inl AttributeError"

text \<open>
  The body of the \<open>try\<close> block of \<open>query_ollama\<close>. \<open>post\<close> is the outside world:
  the outcome of \<open>requests.post\<close> for a prompt (the URL, the model and the options are
  fixed), a response or the exception raised.
\<close>

definition query_ollama_try :: "(str \<Rightarrow> py_exn + http_response) \<Rightarrow> str \<Rightarrow> py_exn + str" where
  "query_ollama_try post prompt =
     (case post prompt of
        Inl e \<Rightarrow> Inl e
      | Inr response \<Rightarrow>
          if status_code response = 200 then
            (case response_json response of
               Inl e \<Rightarrow> Inl e
             | Inr j \<Rightarrow>
                 (case json_get j (lit ''response'') (JString []) of
                    Inl e \<Rightarrow> Inl e
                  | Inr v \<Rightarrow>
                      (case json_strip v of
                         Inl e \<Rightarrow> Inl e
                       | Inr result \<Rightarrow>
                           Inr (if result \<noteq> [] then result
                                else lit ''Sorry, I couldn't generate a response.''))))
          else Inr (lit ''I'm having trouble connecting to the AI model. Please try again.''))"

text \<open>\<open>query_ollama\<close>: the \<open>try\<close> block under its two handlers.\<close>

definition query_ollama :: "(str \<Rightarrow> py_exn + http_response) \<Rightarrow> str \<Rightarrow> py_exn + str" where
  "query_ollama post prompt =
     (case query_ollama_try post prompt of
        Inr s \<Rightarrow> Inr s
      | Inl Timeout \<Rightarrow> Inr (lit ''The request took too long. Please try a simpler question.'')
      | Inl _ \<Rightarrow> Inr (lit ''An error occurred while processing your request.''))"

section \<open>The chat endpoint\<close>

text \<open>
  The process-wide values \<open>chat\<close> reads: the knowledge text (a literal of 37 lines in
  the source, taken as a parameter here) and the two globals set at startup.
\<close>

record app =
  ONCOSIMIS_CONTEXT :: str
  documents_content :: str
  available_documents :: "str list"

text \<open>
  The outside world of one request: the outcome of \<open>requests.post\<close> for each prompt and
  the number \<open>random.choice\<close> draws.
\<close>

record world =
  requests_post :: "str \<Rightarrow> py_exn + http_response"
  random_draw :: nat

record file_ref =
  filename :: str
  path :: str

record ChatResponse =
  response :: str
  files :: "file_ref list option"

datatype failure = HTTPException int str | Unhandled py_exn

definition greeting_keywords :: "str list" where
  "greeting_keywords = map lit [''hi'', ''hello'', ''hey'', ''good morning'', ''good afternoon'',
     ''good evening'', ''greetings'', ''howdy'', ''hola'']"

definition file_keywords :: "str list" where
  "file_keywords = map lit [''sop'', ''procedure'', ''file'', ''document'', ''download'',
     ''send me'', ''give me'', ''show me'', ''need'', ''list'']"

definition greeting_responses :: "str list" where
  "greeting_responses =
    [lit ''Hello! I'm the Oncosimis AI Assistant. I'm here to help you learn about our biotechnology platforms and services. What would you like to know?'',
     lit ''Hi there! Welcome to Oncosimis Biotech. I can tell you about our AcceTT'' @ [0xAE] @
       lit '' and BacSec'' @ [0xAE] @
       lit '' platforms, our team, or help you find Standard Operating Procedures. How can I assist you today?'',
     lit ''Greetings! I'm your AI assistant for Oncosimis Biotech. Ask me about our technologies, team, or request any SOPs you need.'',
     lit ''Hello! Nice to meet you. I'm here to provide information about Oncosimis Biotech's innovative biotechnology solutions. What interests you most?'']"

text \<open>\<open>random.choice(xs)\<close> on a non-empty list, with the number drawn.\<close>

definition random_choice :: "nat \<Rightarrow> 'a list \<Rightarrow> 'a" where
  "random_choice r xs = xs ! (r mod length xs)"

text \<open>Line 270, on \<open>user_message_lower\<close>.\<close>

definition is_greeting :: "str \<Rightarrow> bool" where
  "is_greeting user_message_lower =
     (list_ex (\<lambda>keyword. str_in keyword user_message_lower) greeting_keywords
      \<and> length (split user_message_lower) \<le> 3)"

text \<open>Line 287, on \<open>user_message_lower\<close>.\<close>

definition is_file_request :: "str \<Rightarrow> bool" where
  "is_file_request user_message_lower =
     list_ex (\<lambda>keyword. str_in keyword user_message_lower) file_keywords"

definition file_entry :: "str \<Rightarrow> file_ref" where
  "file_entry doc = \<lparr>filename = doc, path = lit ''/download/'' @ doc\<rparr>"

text \<open>Lines 291 to 302: the documents a word of the message longer than 3 selects.\<close>

definition token_matches :: "lower_table \<Rightarrow> str \<Rightarrow> str list \<Rightarrow> file_ref list" where
  "token_matches tbl user_message_lower docs =
     (let words = split user_message_lower in
      map file_entry
        (filter (\<lambda>doc. list_ex (\<lambda>word. str_in word (lower tbl doc))
                          (filter (\<lambda>word. length word > 3) words)) docs))"

text \<open>Lines 305 to 310.\<close>

definition broad_request :: "str \<Rightarrow> bool" where
  "broad_request user_message_lower =
     (str_in (lit ''all'') user_message_lower \<or> str_in (lit ''list'') user_message_lower
      \<or> str_in (lit ''available'') user_message_lower \<or> str_in (lit ''show'') user_message_lower)"

text \<open>Lines 291 to 311: \<open>matching_files\<close> as line 313 reads it.\<close>

definition matching_files :: "lower_table \<Rightarrow> str \<Rightarrow> str list \<Rightarrow> file_ref list" where
  "matching_files tbl user_message_lower docs =
     (let found = token_matches tbl user_message_lower docs in
      if found = [] \<and> broad_request user_message_lower then map file_entry docs
      else found)"

definition bullet :: str where
  "bullet = [0x2022]"

text \<open>Lines 314 to 320: \<open>response_text\<close> for a non-empty \<open>matching_files\<close>.\<close>

definition response_text :: "file_ref list \<Rightarrow> str" where
  "response_text ms =
     (if length ms = 1 then
        lit ''I found this document for you:\<newline>'' @ bullet @ lit '' '' @ filename (ms ! 0)
          @ lit ''\<newline>\<newline>Click the download button below to get it.''
      else
        (let file_list = join (lit ''\<newline>'') (map (\<lambda>file. bullet @ lit '' '' @ filename file) (take 10 ms));
             file_list = (if length ms > 10
                          then file_list @ lit ''\<newline>... and '' @ str_nat (length ms - 10) @ lit '' more''
                          else file_list)
         in lit ''I found '' @ str_nat (length ms) @ lit '' relevant documents:\<newline>'' @ file_list
              @ lit ''\<newline>\<newline>Click the download buttons below to get them.''))"

text \<open>Lines 334 to 341.\<close>

definition full_context :: "app \<Rightarrow> str" where
  "full_context a =
     (if documents_content a \<noteq> [] then
        (if length (documents_content a) > 8000 then
           ONCOSIMIS_CONTEXT a
             @ lit ''\<newline>\<newline>=== STANDARD OPERATING PROCEDURES (Excerpt) ===\<newline>''
             @ take 8000 (documents_content a)
         else
           ONCOSIMIS_CONTEXT a
             @ lit ''\<newline>\<newline>=== STANDARD OPERATING PROCEDURES ===\<newline>''
             @ documents_content a)
      else ONCOSIMIS_CONTEXT a)"

text \<open>Lines 345 to 350: what follows the context in the prompt.\<close>

definition question_part :: "str \<Rightarrow> str" where
  "question_part user_message =
     lit ''\<newline>\<newline>User Question: '' @ user_message
       @ lit ''\<newline>\<newline>Instructions: Answer the user's question based ONLY on the information provided above. If the information is not available, say so politely. Keep your answer concise and professional (2-3 sentences maximum).\<newline>\<newline>Answer:''"

text \<open>Lines 344 to 350.\<close>

definition build_prompt :: "app \<Rightarrow> str \<Rightarrow> str" where
  "build_prompt a user_message = full_context a @ question_part user_message"

text \<open>Lines 333 to 357: the question is put to the model.\<close>

definition answer_question :: "app \<Rightarrow> world \<Rightarrow> str \<Rightarrow> (failure + ChatResponse) \<times> str list" where
  "answer_question a w user_message =
     (let prompt = build_prompt a user_message in
      case query_ollama (requests_post w) prompt of
        Inl e \<Rightarrow> (Inl (Unhandled e), [prompt])
      | Inr ai_response \<Rightarrow> (Inr \<lparr>response = ai_response, files = None\<rparr>, [prompt]))"

text \<open>
  \<open>chat\<close>, from the message of the request body. The result is what the handler
  returns or raises, with the prompts it sent to the inference endpoint, in order.
\<close>

definition chat :: "lower_table \<Rightarrow> app \<Rightarrow> world \<Rightarrow> str \<Rightarrow> (failure + ChatResponse) \<times> str list" where
  "chat tbl a w message =
     (let user_message = strip message in
      if user_message = [] then (Inl (HTTPException 400 (lit ''Message cannot be empty'')), [])
      else
        let user_message_lower = strip (lower tbl user_message) in
        if is_greeting user_message_lower then
          (Inr \<lparr>response = random_choice (random_draw w) greeting_responses, files = None\<rparr>, [])
        else if is_file_request user_message_lower \<and> available_documents a \<noteq> [] then
          (let ms = matching_files tbl user_message_lower (available_documents a) in
           if ms \<noteq> [] then (Inr \<lparr>response = response_text ms, files = Some ms\<rparr>, [])
           else if is_file_request user_message_lower then
             (Inr \<lparr>response = lit ''I couldn't find any documents matching your request. Try asking 'show me all SOPs' to see all available documents.'',
                   files = None\<rparr>, [])
           else answer_question a w user_message)
        else answer_question a w user_message)"

text \<open>
  Lines 259 and 268: the message trimmed, lower-cased and trimmed again, on which the
  tests of lines 270 and 287 and the matcher work.
\<close>

definition normalized :: "lower_table \<Rightarrow> str \<Rightarrow> str" where
  "normalized tbl message = strip (lower tbl (strip message))"

text \<open>
  The intent of a non-empty message: the branch \<open>chat\<close> takes for it, the greeting test
  of line 272 before the file test of line 289.
\<close>

datatype intent = Greeting | FileRequest | Question

definition classify :: "lower_table \<Rightarrow> str \<Rightarrow> intent" where
  "classify tbl message =
     (let user_message_lower = normalized tbl message in
      if is_greeting user_message_lower then Greeting
      else if is_file_request user_message_lower then FileRequest
      else Question)"

section \<open>An example deployment\<close>

text \<open>
  A corpus of two documents, an inference endpoint that answers every prompt, and a
  lower-case table that leaves the code points beyond ASCII as they are.
\<close>

definition example_app :: app where
  "example_app =
     \<lparr>ONCOSIMIS_CONTEXT = lit ''Oncosimis Biotech Pvt Ltd is a biotechnology company.'',
      documents_content = lit ''\<newline>\<newline>=== Cleaning_procedure.txt ===\<newline>Wipe the bench.'',
      available_documents = [lit ''Safety_SOP.docx'', lit ''Cleaning_procedure.txt'']\<rparr>"

definition example_world :: world where
  "example_world =
     \<lparr>requests_post = (\<lambda>prompt. Inr \<lparr>status_code = 200,
          body = Some (JObject [(lit ''response'',
                   JString ([0xA0] @ lit '' AcceTT is a CHO-based platform.\<newline>''))])\<rparr>),
      random_draw = 6\<rparr>"

definition example_table :: lower_table where
  "example_table s i = [s ! i]"

section \<open>Strings\<close>

lemma str_in_sublist: "str_in sub s = sublist sub s"
  by (induction s) (auto simp: sublist_Cons_right)

lemma str_in_nonempty: "str_in k s \<Longrightarrow> k \<noteq> [] \<Longrightarrow> s \<noteq> []"
  by (cases s) auto

lemma split_from_tokens:
  "(\<forall>c\<in>set cur. \<not> is_space c) \<Longrightarrow> t \<in> set (split_from cur s)
     \<Longrightarrow> t \<noteq> [] \<and> (\<forall>c\<in>set t. \<not> is_space c)"
proof (induction s arbitrary: cur)
  case Nil
  then show ?case by (auto split: if_splits)
next
  case (Cons a s)
  show ?case
  proof (cases "is_space a")
    case True
    with Cons.prems have "t = cur \<and> cur \<noteq> [] \<or> t \<in> set (split_from [] s)"
      by (auto split: if_splits)
    then show ?thesis
      using Cons.prems(1) Cons.IH[of "[]"] by auto
  next
    case False
    with Cons.prems have "t \<in> set (split_from (cur @ [a]) s)" by simp
    moreover have "\<forall>c\<in>set (cur @ [a]). \<not> is_space c"
      using Cons.prems(1) False by simp
    ultimately show ?thesis using Cons.IH[of "cur @ [a]"] by blast
  qed
qed

text \<open>The tokens of \<open>split\<close> are non-empty and hold no whitespace.\<close>

lemma split_tokens: "t \<in> set (split s) \<Longrightarrow> t \<noteq> [] \<and> (\<forall>c\<in>set t. \<not> is_space c)"
  using split_from_tokens[of "[]" t s] by (simp add: split_def)

lemma strip_Nil_iff: "strip s = [] \<longleftrightarrow> (\<forall>c\<in>set s. is_space c)"
proof
  assume "strip s = []"
  then have "dropWhile is_space s = []"
    by (simp add: strip_def) (metis dropWhile_eq_Nil_conv hd_dropWhile hd_in_set)
  then show "\<forall>c\<in>set s. is_space c" by simp
next
  assume "\<forall>c\<in>set s. is_space c"
  then show "strip s = []" by (auto simp: strip_def dest: set_dropWhileD)
qed

lemma last_dropWhile: "dropWhile P xs \<noteq> [] \<Longrightarrow> last (dropWhile P xs) = last xs"
  by (induction xs) (auto split: if_splits)

lemma strip_last: "strip s \<noteq> [] \<Longrightarrow> \<not> is_space (last (strip s))"
  unfolding strip_def by (simp add: last_rev hd_dropWhile)

lemma strip_hd:
  assumes "strip s \<noteq> []"
  shows "\<not> is_space (hd (strip s))"
proof -
  let ?d = "dropWhile is_space s"
  from assms have ne: "dropWhile is_space (rev ?d) \<noteq> []" by (simp add: strip_def)
  then have d: "?d \<noteq> []" by (auto dest: set_dropWhileD)
  have "hd (strip s) = last (dropWhile is_space (rev ?d))"
    using ne by (simp add: strip_def hd_rev)
  also have "\<dots> = last (rev ?d)" using ne by (rule last_dropWhile)
  also have "\<dots> = hd ?d" using d by (simp add: last_rev)
  finally show ?thesis using d hd_dropWhile[of is_space s] by simp
qed

lemma strip_fixed:
  assumes "s = [] \<or> (\<not> is_space (hd s) \<and> \<not> is_space (last s))"
  shows "strip s = s"
proof (cases "s = []")
  case True
  then show ?thesis by (simp add: strip_def)
next
  case False
  with assms have h: "\<not> is_space (hd s)" and l: "\<not> is_space (last s)" by auto
  have "dropWhile is_space s = s"
    using h by (simp add: dropWhile_eq_self_iff)
  moreover have "dropWhile is_space (rev s) = rev s"
    using l False by (simp add: dropWhile_eq_self_iff hd_rev)
  ultimately show ?thesis by (simp add: strip_def)
qed

lemma strip_strip: "strip (strip s) = strip s"
  using strip_hd[of s] strip_last[of s] by (intro strip_fixed) blast

lemma strip_Nil: "strip [] = []"
  by (simp add: strip_def)

lemma lower_Nil: "lower tbl [] = []"
  by (simp add: lower_def)

text \<open>A message whose normal form is not empty passes the test of line 261.\<close>

lemma normalized_nonempty: "normalized tbl message \<noteq> [] \<Longrightarrow> strip message \<noteq> []"
  by (auto simp: normalized_def lower_Nil strip_Nil)

lemma lit_nonempty: "s \<noteq> [] \<Longrightarrow> lit s \<noteq> []"
  by (simp add: lit_def)

section \<open>The branches of \<open>chat\<close>\<close>

lemma random_choice_mem: "xs \<noteq> [] \<Longrightarrow> random_choice r xs \<in> set xs"
  by (simp add: random_choice_def)

lemma greeting_responses_nonempty: "greeting_responses \<noteq> []"
  by (simp add: greeting_responses_def)

lemma keyword_nonempty: "k \<in> set greeting_keywords \<or> k \<in> set file_keywords \<Longrightarrow> k \<noteq> []"
  by (auto simp: greeting_keywords_def file_keywords_def lit_def)

lemma classify_Greeting_iff:
  "classify tbl message = Greeting \<longleftrightarrow> is_greeting (normalized tbl message)"
  by (simp add: classify_def Let_def)

lemma classify_FileRequest_iff:
  "classify tbl message = FileRequest \<longleftrightarrow>
     \<not> is_greeting (normalized tbl message) \<and> is_file_request (normalized tbl message)"
  by (simp add: classify_def Let_def)

lemma classify_Question_iff:
  "classify tbl message = Question \<longleftrightarrow>
     \<not> is_greeting (normalized tbl message) \<and> \<not> is_file_request (normalized tbl message)"
  by (simp add: classify_def Let_def)

lemma chat_greeting:
  assumes "is_greeting (normalized tbl message)"
  shows "\<exists>r\<in>set greeting_responses.
           chat tbl a w message = (Inr \<lparr>response = r, files = None\<rparr>, [])"
proof -
  from assms obtain k where "k \<in> set greeting_keywords" "str_in k (normalized tbl message)"
    by (auto simp: is_greeting_def list_ex_iff)
  then have "strip message \<noteq> []"
    using str_in_nonempty keyword_nonempty normalized_nonempty by blast
  then have "chat tbl a w message =
      (Inr \<lparr>response = random_choice (random_draw w) greeting_responses, files = None\<rparr>, [])"
    using assms by (simp add: chat_def normalized_def)
  then show ?thesis
    using random_choice_mem[OF greeting_responses_nonempty] by blast
qed

lemma chat_file_request:
  assumes "is_file_request (normalized tbl message)" "\<not> is_greeting (normalized tbl message)"
  shows "chat tbl a w message =
     (if available_documents a \<noteq> [] then
        (let ms = matching_files tbl (normalized tbl message) (available_documents a) in
         if ms \<noteq> [] then (Inr \<lparr>response = response_text ms, files = Some ms\<rparr>, [])
         else (Inr \<lparr>response = lit ''I couldn't find any documents matching your request. Try asking 'show me all SOPs' to see all available documents.'',
                  files = None\<rparr>, []))
      else answer_question a w (strip message))"
proof -
  from assms obtain k where "k \<in> set file_keywords" "str_in k (normalized tbl message)"
    by (auto simp: is_file_request_def list_ex_iff)
  then have "strip message \<noteq> []"
    using str_in_nonempty keyword_nonempty normalized_nonempty by blast
  then show ?thesis
    using assms by (simp add: chat_def normalized_def Let_def)
qed

lemma chat_question:
  assumes "strip message \<noteq> []" "\<not> is_greeting (normalized tbl message)"
    "\<not> is_file_request (normalized tbl message) \<or> available_documents a = []"
  shows "chat tbl a w message = answer_question a w (strip message)"
  using assms by (auto simp: chat_def normalized_def Let_def)

lemma chat_files:
  assumes "chat tbl a w message = (Inr r, ps)" "files r = Some fs"
  shows "fs = matching_files tbl (normalized tbl message) (available_documents a)"
  using assms
  by (auto simp: chat_def normalized_def Let_def answer_question_def split: if_splits sum.splits)

lemma token_matches_set:
  "set (token_matches tbl l docs) =
     file_entry ` {doc \<in> set docs.
        \<exists>word\<in>set (split l). length word > 3 \<and> str_in word (lower tbl doc)}"
  by (auto simp: token_matches_def list_ex_iff)

lemma matching_files_subset: "set (matching_files tbl l docs) \<subseteq> file_entry ` set docs"
  by (auto simp: matching_files_def token_matches_set Let_def)

section \<open>The results of \<open>query_ollama\<close>\<close>

lemma query_ollama_cases:
  "\<exists>s. query_ollama post prompt = Inr s
     \<and> (s \<in> {lit ''Sorry, I couldn't generate a response.'',
              lit ''I'm having trouble connecting to the AI model. Please try again.'',
              lit ''The request took too long. Please try a simpler question.'',
              lit ''An error occurred while processing your request.''}
         \<or> (\<exists>t. s = strip t \<and> strip t \<noteq> []))"
  by (auto simp: query_ollama_def query_ollama_try_def response_json_def
           split: sum.splits py_exn.splits option.splits elim!: json_get.elims json_strip.elims)

lemma fallback_ends:
  "s \<in> {lit ''Sorry, I couldn't generate a response.'',
              lit ''I'm having trouble connecting to the AI model. Please try again.'',
              lit ''The request took too long. Please try a simpler question.'',
              lit ''An error occurred while processing your request.''}
   \<Longrightarrow> s \<noteq> [] \<and> \<not> is_space (hd s) \<and> \<not> is_space (last s)"
  by (auto simp: is_space_def lit_def)

lemma query_ollama_ends:
  "\<exists>s. query_ollama post prompt = Inr s \<and> s \<noteq> [] \<and> \<not> is_space (hd s) \<and> \<not> is_space (last s)"
  using query_ollama_cases[of post prompt] fallback_ends strip_hd strip_last
  by (metis (no_types, lifting))

lemma query_ollama_success:
  assumes "post prompt = Inr r" "status_code r = 200" "body r = Some (JObject kvs)"
    "map_of kvs (lit ''response'') = Some (JString t)" "strip t \<noteq> []"
  shows "query_ollama post prompt = Inr (strip t)"
  using assms by (simp add: query_ollama_def query_ollama_try_def response_json_def)

section \<open>Properties of the chat pipeline\<close>

text \<open>
  C9. A message that is empty or all whitespace (any whitespace \<open>str.strip()\<close> removes,
  in ASCII or beyond) is rejected with HTTP 400: \<open>chat\<close> raises the exception before
  anything else, so that no response object is built and no prompt is sent to the
  inference endpoint, whatever the corpus and the outside world.
\<close>

theorem chat_rejects_blank:
  assumes "\<forall>c\<in>set message. is_space c"
  shows "chat tbl a w message = (Inl (HTTPException 400 (lit ''Message cannot be empty'')), [])"
  using assms by (simp add: chat_def strip_Nil_iff)

theorem chat_rejects_blank_witness:
  "chat example_table example_app example_world []
     = (Inl (HTTPException 400 (lit ''Message cannot be empty'')), [])
   \<and> chat example_table example_app example_world (lit '' \<newline> '')
     = (Inl (HTTPException 400 (lit ''Message cannot be empty'')), [])
   \<and> chat example_table example_app example_world [0xA0, 0x3000, 0x85]
     = (Inl (HTTPException 400 (lit ''Message cannot be empty'')), [])"
proof -
  have "\<forall>c\<in>set (lit '' \<newline> ''). is_space c" by (simp add: is_space_def lit_def)
  moreover have "\<forall>c\<in>set [0xA0, 0x3000, 0x85]. is_space c" by (simp add: is_space_def)
  ultimately show ?thesis
    using chat_rejects_blank[of "[]" example_table example_app example_world]
      chat_rejects_blank[of "lit '' \<newline> ''" example_table example_app example_world]
      chat_rejects_blank[of "[0xA0, 0x3000, 0x85]" example_table example_app example_world]
    by simp
qed

text \<open>
  C2. A message that, trimmed and lower-cased as lines 259 and 268 do, contains a
  greeting keyword and splits into at most 3 tokens is a greeting: \<open>chat\<close> answers with
  one of the four greeting texts, with no files and no call of the inference endpoint.
\<close>

theorem greeting_short_message:
  assumes "\<exists>k\<in>set greeting_keywords. str_in k (normalized tbl message)"
      and "length (split (normalized tbl message)) \<le> 3"
  shows "classify tbl message = Greeting
       \<and> (\<exists>r\<in>set greeting_responses.
             chat tbl a w message = (Inr \<lparr>response = r, files = None\<rparr>, []))"
proof -
  have g: "is_greeting (normalized tbl message)"
    using assms by (simp add: is_greeting_def list_ex_iff)
  then have "classify tbl message = Greeting"
    by (simp add: classify_Greeting_iff)
  with chat_greeting[OF g] show ?thesis by simp
qed

theorem greeting_short_message_witness:
  "classify example_table (lit '' Hi there'') = Greeting
   \<and> (\<exists>r\<in>set greeting_responses.
         chat example_table example_app example_world (lit '' Hi there'')
           = (Inr \<lparr>response = r, files = None\<rparr>, []))"
proof -
  have l: "normalized example_table (lit '' Hi there'') = lit ''hi there''"
    by (simp add: normalized_def lower_def strip_def is_space_def ascii_lower_def lit_def)
  have k: "\<exists>k\<in>set greeting_keywords. str_in k (normalized example_table (lit '' Hi there''))"
    unfolding l by (simp add: greeting_keywords_def lit_def)
  have n: "length (split (normalized example_table (lit '' Hi there''))) \<le> 3"
    unfolding l by (simp add: split_def is_space_def lit_def)
  from greeting_short_message[OF k n] show ?thesis .
qed

text \<open>
  C1. \<open>query_ollama\<close> returns a string for every prompt and every outcome of the
  request, and each failure has its fixed text: a timeout, any other exception of the
  request, a status other than 200, a 200 whose generated text is missing, empty or all
  whitespace, and a 200 whose body is not JSON, not an object, or holds a \<open>response\<close>
  that is not a string.
\<close>

theorem query_ollama_fallbacks:
  "(\<exists>s. query_ollama post prompt = Inr s)
   \<and> (post prompt = Inl Timeout \<longrightarrow>
        query_ollama post prompt = Inr (lit ''The request took too long. Please try a simpler question.''))
   \<and> (\<forall>e. post prompt = Inl e \<and> e \<noteq> Timeout \<longrightarrow>
        query_ollama post prompt = Inr (lit ''An error occurred while processing your request.''))
   \<and> (\<forall>r. post prompt = Inr r \<and> status_code r \<noteq> 200 \<longrightarrow>
        query_ollama post prompt = Inr (lit ''I'm having trouble connecting to the AI model. Please try again.''))
   \<and> (\<forall>r kvs. post prompt = Inr r \<and> status_code r = 200 \<and> body r = Some (JObject kvs)
          \<and> (map_of kvs (lit ''response'') = None
               \<or> (\<exists>t. map_of kvs (lit ''response'') = Some (JString t) \<and> (\<forall>c\<in>set t. is_space c))) \<longrightarrow>
        query_ollama post prompt = Inr (lit ''Sorry, I couldn't generate a response.''))
   \<and> (\<forall>r. post prompt = Inr r \<and> status_code r = 200
          \<and> (body r = None
               \<or> (\<exists>j. body r = Some j \<and> (\<forall>kvs. j \<noteq> JObject kvs))
               \<or> (\<exists>kvs v. body r = Some (JObject kvs) \<and> map_of kvs (lit ''response'') = Some v
                      \<and> (\<forall>t. v \<noteq> JString t))) \<longrightarrow>
        query_ollama post prompt = Inr (lit ''An error occurred while processing your request.''))"
proof (intro conjI allI impI)
  show "\<exists>s. query_ollama post prompt = Inr s"
    by (simp add: query_ollama_def split: sum.split py_exn.split)
next
  assume "post prompt = Inl Timeout"
  then show "query_ollama post prompt = Inr (lit ''The request took too long. Please try a simpler question.'')"
    by (simp add: query_ollama_def query_ollama_try_def)
next
  fix e assume "post prompt = Inl e \<and> e \<noteq> Timeout"
  then show "query_ollama post prompt = Inr (lit ''An error occurred while processing your request.'')"
    by (cases e) (simp_all add: query_ollama_def query_ollama_try_def)
next
  fix r assume "post prompt = Inr r \<and> status_code r \<noteq> 200"
  then show "query_ollama post prompt = Inr (lit ''I'm having trouble connecting to the AI model. Please try again.'')"
    by (simp add: query_ollama_def query_ollama_try_def)
next
  fix r kvs
  assume h: "post prompt = Inr r \<and> status_code r = 200 \<and> body r = Some (JObject kvs)
          \<and> (map_of kvs (lit ''response'') = None
               \<or> (\<exists>t. map_of kvs (lit ''response'') = Some (JString t) \<and> (\<forall>c\<in>set t. is_space c)))"
  then have "json_get (JObject kvs) (lit ''response'') (JString []) = Inr (JString [])
     \<or> (\<exists>t. json_get (JObject kvs) (lit ''response'') (JString []) = Inr (JString t) \<and> strip t = [])"
    by (auto simp: strip_Nil_iff)
  then have "query_ollama_try post prompt = Inr (lit ''Sorry, I couldn't generate a response.'')"
    using h by (auto simp: query_ollama_try_def response_json_def strip_Nil)
  then show "query_ollama post prompt = Inr (lit ''Sorry, I couldn't generate a response.'')"
    by (simp add: query_ollama_def)
next
  fix r
  assume h: "post prompt = Inr r \<and> status_code r = 200
          \<and> (body r = None
               \<or> (\<exists>j. body r = Some j \<and> (\<forall>kvs. j \<noteq> JObject kvs))
               \<or> (\<exists>kvs v. body r = Some (JObject kvs) \<and> map_of kvs (lit ''response'') = Some v
                      \<and> (\<forall>t. v \<noteq> JString t)))"
  have g: "json_get j (lit ''response'') (JString []) = Inl AttributeError"
    if "\<forall>kvs. j \<noteq> JObject kvs" for j
    using that by (cases j) simp_all
  have s: "json_strip v = Inl AttributeError" if "\<forall>t. v \<noteq> JString t" for v
    using that by (cases v) simp_all
  from h have "query_ollama_try post prompt = Inl JSONDecodeError
       \<or> query_ollama_try post prompt = Inl AttributeError"
    by (auto simp: query_ollama_try_def response_json_def g s)
  then show "query_ollama post prompt = Inr (lit ''An error occurred while processing your request.'')"
    by (auto simp: query_ollama_def)
qed

theorem query_ollama_fallbacks_witness:
  "query_ollama (\<lambda>p. Inl Timeout) (lit ''Who is the CEO?'')
     = Inr (lit ''The request took too long. Please try a simpler question.'')
   \<and> query_ollama (\<lambda>p. Inl ConnectionError) (lit ''Who is the CEO?'')
     = Inr (lit ''An error occurred while processing your request.'')
   \<and> query_ollama (\<lambda>p. Inr \<lparr>status_code = 503, body = None\<rparr>) (lit ''Who is the CEO?'')
     = Inr (lit ''I'm having trouble connecting to the AI model. Please try again.'')
   \<and> query_ollama (\<lambda>p. Inr \<lparr>status_code = 200,
          body = Some (JObject [(lit ''response'', JString [0x20, 0x0A, 0xA0, 0x2003])])\<rparr>)
        (lit ''Who is the CEO?'')
     = Inr (lit ''Sorry, I couldn't generate a response.'')
   \<and> query_ollama (\<lambda>p. Inr \<lparr>status_code = 200, body = Some (JObject [])\<rparr>) (lit ''Who is the CEO?'')
     = Inr (lit ''Sorry, I couldn't generate a response.'')
   \<and> query_ollama (\<lambda>p. Inr \<lparr>status_code = 200, body = None\<rparr>) (lit ''Who is the CEO?'')
     = Inr (lit ''An error occurred while processing your request.'')
   \<and> query_ollama (\<lambda>p. Inr \<lparr>status_code = 200, body = Some (JArray [])\<rparr>) (lit ''Who is the CEO?'')
     = Inr (lit ''An error occurred while processing your request.'')
   \<and> query_ollama (\<lambda>p. Inr \<lparr>status_code = 200,
          body = Some (JObject [(lit ''response'', JNull)])\<rparr>) (lit ''Who is the CEO?'')
     = Inr (lit ''An error occurred while processing your request.'')"
proof -
  let ?q = "lit ''Who is the CEO?''"
  have sp: "\<forall>c\<in>set [0x20, 0x0A, 0xA0, 0x2003]. is_space c" by (simp add: is_space_def)
  have p1: "query_ollama (\<lambda>p. Inl Timeout) ?q
      = Inr (lit ''The request took too long. Please try a simpler question.'')"
    using query_ollama_fallbacks[of "\<lambda>p. Inl Timeout" ?q] by simp
  have p2: "query_ollama (\<lambda>p. Inl ConnectionError) ?q
      = Inr (lit ''An error occurred while processing your request.'')"
    using query_ollama_fallbacks[of "\<lambda>p. Inl ConnectionError" ?q] by simp
  have p3: "query_ollama (\<lambda>p. Inr \<lparr>status_code = 503, body = None\<rparr>) ?q
      = Inr (lit ''I'm having trouble connecting to the AI model. Please try again.'')"
    using query_ollama_fallbacks[of "\<lambda>p. Inr \<lparr>status_code = 503, body = None\<rparr>" ?q] by simp
  have p4: "query_ollama (\<lambda>p. Inr \<lparr>status_code = 200,
          body = Some (JObject [(lit ''response'', JString [0x20, 0x0A, 0xA0, 0x2003])])\<rparr>) ?q
      = Inr (lit ''Sorry, I couldn't generate a response.'')"
    using sp query_ollama_fallbacks[of "\<lambda>p. Inr \<lparr>status_code = 200,
          body = Some (JObject [(lit ''response'', JString [0x20, 0x0A, 0xA0, 0x2003])])\<rparr>" ?q]
    by simp
  have p5: "query_ollama (\<lambda>p. Inr \<lparr>status_code = 200, body = Some (JObject [])\<rparr>) ?q
      = Inr (lit ''Sorry, I couldn't generate a response.'')"
    using query_ollama_fallbacks[of "\<lambda>p. Inr \<lparr>status_code = 200, body = Some (JObject [])\<rparr>" ?q]
    by simp
  have p6: "query_ollama (\<lambda>p. Inr \<lparr>status_code = 200, body = None\<rparr>) ?q
      = Inr (lit ''An error occurred while processing your request.'')"
    using query_ollama_fallbacks[of "\<lambda>p. Inr \<lparr>status_code = 200, body = None\<rparr>" ?q] by simp
  have p7: "query_ollama (\<lambda>p. Inr \<lparr>status_code = 200, body = Some (JArray [])\<rparr>) ?q
      = Inr (lit ''An error occurred while processing your request.'')"
    using query_ollama_fallbacks[of "\<lambda>p. Inr \<lparr>status_code = 200, body = Some (JArray [])\<rparr>" ?q]
    by simp
  have p8: "query_ollama (\<lambda>p. Inr \<lparr>status_code = 200,
          body = Some (JObject [(lit ''response'', JNull)])\<rparr>) ?q
      = Inr (lit ''An error occurred while processing your request.'')"
    using query_ollama_fallbacks[of "\<lambda>p. Inr \<lparr>status_code = 200,
          body = Some (JObject [(lit ''response'', JNull)])\<rparr>" ?q]
    by simp
  from p1 p2 p3 p4 p5 p6 p7 p8 show ?thesis by blast
qed

text \<open>
  C7. For a message with a file keyword, the intent is FileRequest exactly when it is
  not Greeting, and it is Greeting exactly when the greeting test of line 270 holds: the
  greeting test comes first. A message that passes both tests gets a greeting; a
  FileRequest on a non-empty corpus gets the matched files or the text that none was
  found, and on an empty corpus it is put to the model.
\<close>

theorem file_request_after_greeting:
  assumes "\<exists>k\<in>set file_keywords. str_in k (normalized tbl message)"
  shows "(classify tbl message = FileRequest \<longleftrightarrow> classify tbl message \<noteq> Greeting)
       \<and> (classify tbl message = Greeting \<longleftrightarrow> is_greeting (normalized tbl message))
       \<and> (classify tbl message = Greeting \<longrightarrow>
            (\<exists>r\<in>set greeting_responses.
                chat tbl a w message = (Inr \<lparr>response = r, files = None\<rparr>, [])))
       \<and> (classify tbl message = FileRequest \<and> available_documents a \<noteq> [] \<longrightarrow>
            chat tbl a w message =
              (let ms = matching_files tbl (normalized tbl message) (available_documents a) in
               if ms \<noteq> [] then (Inr \<lparr>response = response_text ms, files = Some ms\<rparr>, [])
               else (Inr \<lparr>response = lit ''I couldn't find any documents matching your request. Try asking 'show me all SOPs' to see all available documents.'',
                        files = None\<rparr>, [])))
       \<and> (classify tbl message = FileRequest \<and> available_documents a = [] \<longrightarrow>
            chat tbl a w message = answer_question a w (strip message))"
proof -
  have f: "is_file_request (normalized tbl message)"
    using assms by (simp add: is_file_request_def list_ex_iff)
  have c: "classify tbl message
      = (if is_greeting (normalized tbl message) then Greeting else FileRequest)"
    using f by (simp add: classify_def)
  show ?thesis
    using c chat_greeting[of tbl message a w] chat_file_request[OF f, of a w]
    by (auto split: if_splits)
qed

theorem file_request_after_greeting_witness:
  "classify example_table (lit ''hi, list files'') = Greeting
   \<and> (\<exists>r\<in>set greeting_responses.
         chat example_table example_app example_world (lit ''hi, list files'')
           = (Inr \<lparr>response = r, files = None\<rparr>, []))
   \<and> classify example_table (lit ''Please list the files I need'') = FileRequest
   \<and> chat example_table example_app example_world (lit ''Please list the files I need'')
       = (Inr \<lparr>response = response_text (map file_entry (available_documents example_app)),
               files = Some (map file_entry (available_documents example_app))\<rparr>, [])
   \<and> chat example_table (example_app\<lparr>available_documents := []\<rparr>) example_world
         (lit ''Please list the files I need'')
       = answer_question (example_app\<lparr>available_documents := []\<rparr>) example_world
           (lit ''Please list the files I need'')"
proof -
  let ?m1 = "lit ''hi, list files''"
  let ?m2 = "lit ''Please list the files I need''"
  have l1: "normalized example_table ?m1 = lit ''hi, list files''"
    by (simp add: normalized_def lower_def strip_def is_space_def ascii_lower_def lit_def)
  have k1: "\<exists>k\<in>set file_keywords. str_in k (normalized example_table ?m1)"
    unfolding l1 by (simp add: file_keywords_def lit_def)
  have g1: "is_greeting (normalized example_table ?m1)"
    unfolding l1 by (simp add: is_greeting_def greeting_keywords_def split_def is_space_def lit_def)
  have l2: "normalized example_table ?m2 = lit ''please list the files i need''"
    by (simp add: normalized_def lower_def strip_def is_space_def ascii_lower_def lit_def)
  have k2: "\<exists>k\<in>set file_keywords. str_in k (normalized example_table ?m2)"
    unfolding l2 by (simp add: file_keywords_def lit_def)
  have g2: "\<not> is_greeting (normalized example_table ?m2)"
    unfolding l2 by (simp add: is_greeting_def greeting_keywords_def split_def is_space_def lit_def)
  have m2: "matching_files example_table (lit ''please list the files i need'')
        (available_documents example_app)
      = map file_entry (available_documents example_app)"
    by (simp add: matching_files_def token_matches_def broad_request_def example_app_def
          split_def is_space_def lower_def ascii_lower_def lit_def)
  have d: "available_documents example_app \<noteq> []"
    by (simp add: example_app_def)
  note t1 = file_request_after_greeting[OF k1, of example_app example_world]
  note t2 = file_request_after_greeting[OF k2, of example_app example_world]
  note t3 = file_request_after_greeting[OF k2, of "example_app\<lparr>available_documents := []\<rparr>" example_world]
  have c1: "classify example_table ?m1 = Greeting"
    using t1 g1 by blast
  then have r1: "\<exists>r\<in>set greeting_responses.
         chat example_table example_app example_world ?m1 = (Inr \<lparr>response = r, files = None\<rparr>, [])"
    using t1 by blast
  have "classify example_table ?m2 \<noteq> Greeting"
    using t2 g2 by blast
  then have c2: "classify example_table ?m2 = FileRequest"
    using t2 by blast
  then have "chat example_table example_app example_world ?m2 =
      (let ms = matching_files example_table (normalized example_table ?m2)
                  (available_documents example_app) in
       if ms \<noteq> [] then (Inr \<lparr>response = response_text ms, files = Some ms\<rparr>, [])
       else (Inr \<lparr>response = lit ''I couldn't find any documents matching your request. Try asking 'show me all SOPs' to see all available documents.'',
                files = None\<rparr>, []))"
    using t2 d by blast
  then have r2: "chat example_table example_app example_world ?m2
       = (Inr \<lparr>response = response_text (map file_entry (available_documents example_app)),
               files = Some (map file_entry (available_documents example_app))\<rparr>, [])"
    using d by (simp add: l2 m2 Let_def)
  have r3: "chat example_table (example_app\<lparr>available_documents := []\<rparr>) example_world ?m2
       = answer_question (example_app\<lparr>available_documents := []\<rparr>) example_world ?m2"
  proof -
    have "strip ?m2 = ?m2"
      by (simp add: strip_def is_space_def lit_def)
    moreover have "available_documents (example_app\<lparr>available_documents := []\<rparr>) = []"
      by simp
    ultimately show ?thesis using t3 c2 by metis
  qed
  from c1 r1 c2 r2 r3 show ?thesis by blast
qed

text \<open>
  C3. Every file the matcher returns has the name of a document of the corpus and the
  path \<open>/download/\<close> followed by that name; so has every file of a response of \<open>chat\<close>.
\<close>

theorem matched_files_from_corpus:
  "(\<forall>f\<in>set (matching_files tbl l docs).
       filename f \<in> set docs \<and> path f = lit ''/download/'' @ filename f)
   \<and> (\<forall>r ps fs. chat tbl a w message = (Inr r, ps) \<and> files r = Some fs \<longrightarrow>
         (\<forall>f\<in>set fs. filename f \<in> set (available_documents a)
                      \<and> path f = lit ''/download/'' @ filename f))"
proof -
  have m: "filename f \<in> set docs \<and> path f = lit ''/download/'' @ filename f"
    if "f \<in> set (matching_files tbl l docs)" for f l docs
    using that matching_files_subset[of tbl l docs] by (auto simp: file_entry_def)
  show ?thesis
    using m chat_files by blast
qed

theorem matched_files_from_corpus_witness:
  "matching_files example_table (lit ''send me the safety sop'')
       [lit ''Safety_SOP.docx'', lit ''Cleaning_procedure.txt'']
     = [\<lparr>filename = lit ''Safety_SOP.docx'', path = lit ''/download/Safety_SOP.docx''\<rparr>]
   \<and> (\<exists>f. f \<in> set (matching_files example_table (lit ''send me the safety sop'')
                       [lit ''Safety_SOP.docx'', lit ''Cleaning_procedure.txt''])
         \<and> filename f \<in> set [lit ''Safety_SOP.docx'', lit ''Cleaning_procedure.txt'']
         \<and> path f = lit ''/download/'' @ filename f)
   \<and> (\<exists>r f fs. fst (chat example_table example_app example_world (lit ''send me the safety SOP''))
           = Inr r
         \<and> files r = Some fs \<and> f \<in> set fs
         \<and> filename f \<in> set (available_documents example_app)
         \<and> path f = lit ''/download/'' @ filename f)"
proof -
  let ?f = "\<lparr>filename = lit ''Safety_SOP.docx'', path = lit ''/download/Safety_SOP.docx''\<rparr>"
  let ?docs = "[lit ''Safety_SOP.docx'', lit ''Cleaning_procedure.txt'']"
  let ?l = "lit ''send me the safety sop''"
  let ?msg = "lit ''send me the safety SOP''"
  note t = matched_files_from_corpus[of example_table ?l ?docs example_app example_world ?msg]
  have m: "matching_files example_table ?l ?docs = [?f]"
    by (simp add: matching_files_def token_matches_def file_entry_def
          split_def is_space_def lower_def ascii_lower_def lit_def)
  then have mem: "?f \<in> set (matching_files example_table ?l ?docs)"
    by simp
  have p1: "filename ?f \<in> set ?docs \<and> path ?f = lit ''/download/'' @ filename ?f"
    using t[THEN conjunct1, THEN bspec, OF mem] .
  have l: "normalized example_table ?msg = ?l"
    by (simp add: normalized_def lower_def strip_def is_space_def ascii_lower_def lit_def)
  have "is_file_request ?l"
    by (simp add: is_file_request_def file_keywords_def lit_def)
  moreover have "\<not> is_greeting ?l"
    by (simp add: is_greeting_def greeting_keywords_def split_def is_space_def lit_def)
  moreover have "available_documents example_app = ?docs"
    by (simp add: example_app_def)
  ultimately have c: "chat example_table example_app example_world ?msg
      = (Inr \<lparr>response = response_text [?f], files = Some [?f]\<rparr>, [])"
    using m by (simp add: chat_file_request l Let_def)
  have "\<forall>f\<in>set [?f]. filename f \<in> set (available_documents example_app)
          \<and> path f = lit ''/download/'' @ filename f"
    using t[THEN conjunct2, rule_format, of "\<lparr>response = response_text [?f], files = Some [?f]\<rparr>" "[]" "[?f]"] c
    by simp
  then have p2: "filename ?f \<in> set (available_documents example_app)
          \<and> path ?f = lit ''/download/'' @ filename ?f"
    by simp
  from c have "fst (chat example_table example_app example_world ?msg)
      = Inr \<lparr>response = response_text [?f], files = Some [?f]\<rparr>" by simp
  moreover have "files \<lparr>response = response_text [?f], files = Some [?f]\<rparr> = Some [?f]" by simp
  moreover have "?f \<in> set [?f]" by simp
  ultimately have "\<exists>r f fs. fst (chat example_table example_app example_world ?msg) = Inr r
         \<and> files r = Some fs \<and> f \<in> set fs
         \<and> filename f \<in> set (available_documents example_app)
         \<and> path f = lit ''/download/'' @ filename f"
    using p2 by blast
  with m mem p1 show ?thesis by blast
qed

text \<open>
  C5. Token matching reads the words of the message longer than 3 characters only: a
  file is token-matched exactly when it is the entry of a corpus document whose
  lower-cased name contains such a word; two messages with the same words longer than 3
  token-match the same files; \<open>get it\<close> token-matches nothing in a corpus holding
  \<open>SOP_it_procedures.txt\<close>, and neither does \<open>get\<close>, U+00A0, \<open>it\<close> in a corpus
  holding a document of that very name.
\<close>

theorem short_tokens_ignored:
  "(f \<in> set (token_matches tbl l docs) \<longleftrightarrow>
      (\<exists>doc\<in>set docs. f = file_entry doc
          \<and> (\<exists>word\<in>set (split l). length word > 3 \<and> str_in word (lower tbl doc))))
   \<and> (filter (\<lambda>word. length word > 3) (split l) = filter (\<lambda>word. length word > 3) (split l') \<longrightarrow>
        token_matches tbl l docs = token_matches tbl l' docs)
   \<and> token_matches tbl (lit ''get it'') [lit ''SOP_it_procedures.txt''] = []
   \<and> token_matches tbl (lit ''get'' @ [0xA0] @ lit ''it'')
        [lit ''get'' @ [0xA0] @ lit ''it.txt''] = []"
proof (intro conjI impI)
  show "f \<in> set (token_matches tbl l docs) \<longleftrightarrow>
      (\<exists>doc\<in>set docs. f = file_entry doc
          \<and> (\<exists>word\<in>set (split l). length word > 3 \<and> str_in word (lower tbl doc)))"
    by (auto simp: token_matches_set)
next
  assume "filter (\<lambda>word. length word > 3) (split l) = filter (\<lambda>word. length word > 3) (split l')"
  then show "token_matches tbl l docs = token_matches tbl l' docs"
    by (simp add: token_matches_def)
next
  show "token_matches tbl (lit ''get it'') [lit ''SOP_it_procedures.txt''] = []"
    by (simp add: token_matches_def split_def is_space_def lit_def)
next
  show "token_matches tbl (lit ''get'' @ [0xA0] @ lit ''it'')
        [lit ''get'' @ [0xA0] @ lit ''it.txt''] = []"
    by (simp add: token_matches_def split_def is_space_def lit_def)
qed

theorem short_tokens_ignored_witness:
  "filter (\<lambda>word. length word > 3) (split (lit ''get it for the safety sop'')) = [lit ''safety'']
   \<and> filter (\<lambda>word. length word > 3) (split (lit ''safety'')) = [lit ''safety'']
   \<and> token_matches example_table (lit ''get it for the safety sop'')
         [lit ''SOP_it_procedures.txt'', lit ''Safety_SOP.docx'']
       = token_matches example_table (lit ''safety'')
         [lit ''SOP_it_procedures.txt'', lit ''Safety_SOP.docx'']"
proof -
  let ?docs = "[lit ''SOP_it_procedures.txt'', lit ''Safety_SOP.docx'']"
  have a: "filter (\<lambda>word. length word > 3) (split (lit ''get it for the safety sop'')) = [lit ''safety'']"
    by (simp add: split_def is_space_def lit_def)
  have b: "filter (\<lambda>word. length word > 3) (split (lit ''safety'')) = [lit ''safety'']"
    by (simp add: split_def is_space_def lit_def)
  from a b have "filter (\<lambda>word. length word > 3) (split (lit ''get it for the safety sop''))
      = filter (\<lambda>word. length word > 3) (split (lit ''safety''))"
    by simp
  then have "token_matches example_table (lit ''get it for the safety sop'') ?docs
       = token_matches example_table (lit ''safety'') ?docs"
    using short_tokens_ignored[THEN conjunct2, THEN conjunct1] by blast
  with a b show ?thesis by blast
qed

text \<open>
  C6. When no document is token-matched and the message contains \<open>all\<close>, \<open>list\<close>,
  \<open>available\<close> or \<open>show\<close>, the matcher returns every document of the corpus, in
  corpus order; for a FileRequest on a non-empty corpus, \<open>chat\<close> then returns all of them as
  its files.
\<close>

theorem broad_request_returns_all:
  assumes "token_matches tbl l docs = []" and "broad_request l"
  shows "matching_files tbl l docs = map file_entry docs
       \<and> (l = normalized tbl message \<and> docs = available_documents a \<and> docs \<noteq> []
            \<and> classify tbl message = FileRequest \<longrightarrow>
          chat tbl a w message =
            (Inr \<lparr>response = response_text (map file_entry docs),
                  files = Some (map file_entry docs)\<rparr>, []))"
proof (intro conjI impI)
  show m: "matching_files tbl l docs = map file_entry docs"
    using assms by (simp add: matching_files_def)
  assume h: "l = normalized tbl message \<and> docs = available_documents a \<and> docs \<noteq> []
            \<and> classify tbl message = FileRequest"
  then have c: "is_file_request (normalized tbl message)" "\<not> is_greeting (normalized tbl message)"
    by (simp_all add: classify_FileRequest_iff)
  from h m have "available_documents a \<noteq> []"
    and "matching_files tbl (normalized tbl message) (available_documents a) = map file_entry docs"
    and "map file_entry docs \<noteq> []"
    by auto
  then show "chat tbl a w message =
            (Inr \<lparr>response = response_text (map file_entry docs),
                  files = Some (map file_entry docs)\<rparr>, [])"
    by (simp add: chat_file_request[OF c] Let_def)
qed

theorem broad_request_returns_all_witness:
  "matching_files example_table (lit ''show me all documents'')
       [lit ''Safety_SOP.docx'', lit ''Cleaning_procedure.txt'']
     = [\<lparr>filename = lit ''Safety_SOP.docx'', path = lit ''/download/'' @ lit ''Safety_SOP.docx''\<rparr>,
        \<lparr>filename = lit ''Cleaning_procedure.txt'',
          path = lit ''/download/'' @ lit ''Cleaning_procedure.txt''\<rparr>]
   \<and> fst (chat example_table example_app example_world (lit ''Show me all documents''))
     = Inr \<lparr>response = response_text
               [\<lparr>filename = lit ''Safety_SOP.docx'', path = lit ''/download/'' @ lit ''Safety_SOP.docx''\<rparr>,
                \<lparr>filename = lit ''Cleaning_procedure.txt'',
                  path = lit ''/download/'' @ lit ''Cleaning_procedure.txt''\<rparr>],
            files = Some
               [\<lparr>filename = lit ''Safety_SOP.docx'', path = lit ''/download/'' @ lit ''Safety_SOP.docx''\<rparr>,
                \<lparr>filename = lit ''Cleaning_procedure.txt'',
                  path = lit ''/download/'' @ lit ''Cleaning_procedure.txt''\<rparr>]\<rparr>"
proof -
  let ?docs = "[lit ''Safety_SOP.docx'', lit ''Cleaning_procedure.txt'']"
  let ?l = "lit ''show me all documents''"
  let ?msg = "lit ''Show me all documents''"
  have t: "token_matches example_table ?l ?docs = []"
    by (simp add: token_matches_def split_def is_space_def lower_def ascii_lower_def lit_def)
  have b: "broad_request ?l"
    by (simp add: broad_request_def lit_def)
  note r = broad_request_returns_all[OF t b, of ?msg example_app example_world]
  have l: "?l = normalized example_table ?msg"
    by (simp add: normalized_def lower_def strip_def is_space_def ascii_lower_def lit_def)
  have d: "?docs = available_documents example_app" "?docs \<noteq> []"
    by (simp_all add: example_app_def)
  have "is_file_request ?l"
    by (simp add: is_file_request_def file_keywords_def lit_def)
  moreover have "\<not> is_greeting ?l"
    by (simp add: is_greeting_def greeting_keywords_def split_def is_space_def lit_def)
  ultimately have c: "classify example_table ?msg = FileRequest"
    by (simp add: classify_FileRequest_iff l[symmetric])
  have "chat example_table example_app example_world ?msg =
            (Inr \<lparr>response = response_text (map file_entry ?docs),
                  files = Some (map file_entry ?docs)\<rparr>, [])"
    using r[THEN conjunct2] l d c by blast
  then show ?thesis
    using r[THEN conjunct1] by (simp add: file_entry_def)
qed



text \<open>
  C4. The prompt is the knowledge text, then (for a non-empty corpus text) a section
  header, then the corpus text cut to its first 8000 characters when it is longer than
  8000 and whole otherwise, then the question part; the part taken from the corpus text is
  never longer than 8000 characters. This prompt is the one sent to the inference
  endpoint.
\<close>

theorem corpus_excerpt_bounded:
  "build_prompt a user_message =
     ONCOSIMIS_CONTEXT a
     @ (if documents_content a = [] then []
        else if length (documents_content a) > 8000
        then lit ''\<newline>\<newline>=== STANDARD OPERATING PROCEDURES (Excerpt) ===\<newline>''
        else lit ''\<newline>\<newline>=== STANDARD OPERATING PROCEDURES ===\<newline>'')
     @ (if length (documents_content a) > 8000 then take 8000 (documents_content a)
        else documents_content a)
     @ question_part user_message
   \<and> length (if length (documents_content a) > 8000 then take 8000 (documents_content a)
              else documents_content a) \<le> 8000
   \<and> snd (answer_question a w user_message) = [build_prompt a user_message]"
  by (simp add: build_prompt_def full_context_def answer_question_def Let_def split: sum.split)

text \<open>
  C10. The string \<open>query_ollama\<close> returns is never empty and never all whitespace: it
  neither starts nor ends with whitespace (of ASCII or beyond). On a 200 whose generated
  text has a non-whitespace character it is that text stripped. So a message that is put
  to the model (a Question, or a FileRequest on an empty corpus) gets a response with a
  non-empty text that is not all whitespace, and no files.
\<close>

theorem query_ollama_not_blank:
  "(\<exists>s. query_ollama post prompt = Inr s \<and> s \<noteq> [] \<and> (\<exists>c\<in>set s. \<not> is_space c)
        \<and> \<not> is_space (hd s) \<and> \<not> is_space (last s))
   \<and> (\<forall>r kvs t. post prompt = Inr r \<and> status_code r = 200 \<and> body r = Some (JObject kvs)
          \<and> map_of kvs (lit ''response'') = Some (JString t) \<and> strip t \<noteq> [] \<longrightarrow>
        query_ollama post prompt = Inr (strip t))
   \<and> (strip message \<noteq> [] \<and> (classify tbl message = Question
           \<or> classify tbl message = FileRequest \<and> available_documents a = []) \<longrightarrow>
        (\<exists>s. chat tbl a w message
               = (Inr \<lparr>response = s, files = None\<rparr>, [build_prompt a (strip message)])
            \<and> s \<noteq> [] \<and> (\<exists>c\<in>set s. \<not> is_space c)
            \<and> \<not> is_space (hd s) \<and> \<not> is_space (last s)))"
proof (intro conjI allI impI)
  obtain s where s: "query_ollama post prompt = Inr s" "s \<noteq> []" "\<not> is_space (hd s)" "\<not> is_space (last s)"
    using query_ollama_ends by blast
  then have "hd s \<in> set s" by simp
  with s show "\<exists>s. query_ollama post prompt = Inr s \<and> s \<noteq> [] \<and> (\<exists>c\<in>set s. \<not> is_space c)
        \<and> \<not> is_space (hd s) \<and> \<not> is_space (last s)" by blast
next
  fix r kvs t
  assume "post prompt = Inr r \<and> status_code r = 200 \<and> body r = Some (JObject kvs)
          \<and> map_of kvs (lit ''response'') = Some (JString t) \<and> strip t \<noteq> []"
  then show "query_ollama post prompt = Inr (strip t)"
    using query_ollama_success by blast
next
  assume h: "strip message \<noteq> [] \<and> (classify tbl message = Question
           \<or> classify tbl message = FileRequest \<and> available_documents a = [])"
  then have q: "chat tbl a w message = answer_question a w (strip message)"
    using chat_question[of message tbl a w]
    by (auto simp: classify_Question_iff classify_FileRequest_iff)
  obtain s where s: "query_ollama (requests_post w) (build_prompt a (strip message)) = Inr s"
     "s \<noteq> []" "\<not> is_space (hd s)" "\<not> is_space (last s)"
    using query_ollama_ends by blast
  then have "hd s \<in> set s" by simp
  with s q show "\<exists>s. chat tbl a w message
               = (Inr \<lparr>response = s, files = None\<rparr>, [build_prompt a (strip message)])
            \<and> s \<noteq> [] \<and> (\<exists>c\<in>set s. \<not> is_space c)
            \<and> \<not> is_space (hd s) \<and> \<not> is_space (last s)"
    by (auto simp: answer_question_def)
qed

theorem query_ollama_not_blank_witness:
  "query_ollama (requests_post example_world) (lit ''What is AcceTT?'')
     = Inr (lit ''AcceTT is a CHO-based platform.'')
   \<and> (\<exists>s. chat example_table example_app example_world (lit ''What is AcceTT?'')
            = (Inr \<lparr>response = s, files = None\<rparr>, [build_prompt example_app (lit ''What is AcceTT?'')])
          \<and> s \<noteq> [] \<and> (\<exists>c\<in>set s. \<not> is_space c)
          \<and> \<not> is_space (hd s) \<and> \<not> is_space (last s))"
proof -
  let ?t = "[0xA0] @ lit '' AcceTT is a CHO-based platform.\<newline>''"
  let ?r = "\<lparr>status_code = 200, body = Some (JObject [(lit ''response'', JString ?t)])\<rparr>"
  let ?msg = "lit ''What is AcceTT?''"
  have st: "strip ?t = lit ''AcceTT is a CHO-based platform.''"
    by (simp add: strip_def is_space_def lit_def)
  have ne: "lit ''AcceTT is a CHO-based platform.'' \<noteq> []"
    by (simp add: lit_def)
  have s1: "strip ?t \<noteq> []"
    unfolding st by (rule ne)
  have "requests_post example_world ?msg = Inr ?r \<and> status_code ?r = 200
      \<and> body ?r = Some (JObject [(lit ''response'', JString ?t)])
      \<and> map_of [(lit ''response'', JString ?t)] (lit ''response'') = Some (JString ?t)"
    by (simp add: example_world_def)
  with s1 have "requests_post example_world ?msg = Inr ?r \<and> status_code ?r = 200
      \<and> body ?r = Some (JObject [(lit ''response'', JString ?t)])
      \<and> map_of [(lit ''response'', JString ?t)] (lit ''response'') = Some (JString ?t)
      \<and> strip ?t \<noteq> []"
    by blast
  then have "query_ollama (requests_post example_world) ?msg = Inr (strip ?t)"
    using query_ollama_not_blank[of "requests_post example_world" ?msg,
        THEN conjunct2, THEN conjunct1] by blast
  then have p1: "query_ollama (requests_post example_world) ?msg
      = Inr (lit ''AcceTT is a CHO-based platform.'')"
    by (simp only: st)
  have sm: "strip ?msg = ?msg"
    by (simp add: strip_def is_space_def lit_def)
  have l: "normalized example_table ?msg = lit ''what is accett?''"
    by (simp add: normalized_def lower_def strip_def is_space_def ascii_lower_def lit_def)
  have "\<not> is_file_request (lit ''what is accett?'')"
    by (simp add: is_file_request_def file_keywords_def lit_def)
  moreover have "\<not> is_greeting (lit ''what is accett?'')"
    by (simp add: is_greeting_def greeting_keywords_def split_def is_space_def lit_def)
  ultimately have c: "classify example_table ?msg = Question"
    by (simp add: classify_Question_iff l)
  have "strip ?msg \<noteq> []"
    unfolding sm by (simp add: lit_def)
  then have "\<exists>s. chat example_table example_app example_world ?msg
         = (Inr \<lparr>response = s, files = None\<rparr>, [build_prompt example_app (strip ?msg)])
       \<and> s \<noteq> [] \<and> (\<exists>c\<in>set s. \<not> is_space c)
       \<and> \<not> is_space (hd s) \<and> \<not> is_space (last s)"
    using query_ollama_not_blank[of _ _ ?msg example_table example_app example_world,
        THEN conjunct2, THEN conjunct2] c by blast
  then have p2: "\<exists>s. chat example_table example_app example_world ?msg
         = (Inr \<lparr>response = s, files = None\<rparr>, [build_prompt example_app ?msg])
       \<and> s \<noteq> [] \<and> (\<exists>c\<in>set s. \<not> is_space c)
       \<and> \<not> is_space (hd s) \<and> \<not> is_space (last s)"
    by (simp only: sm)
  from p1 p2 show ?thesis by blast
qed

end
